theory Spec2Isabelle
  imports Main "HOL-Library.AList"
begin

section \<open>Go values used by \<open>agents/tool_function.go\<close>\<close>

text \<open>
  A Go \<open>error\<close> is a value with an \<open>Error()\<close> text. The file builds errors with
  \<open>fmt.Errorf("<prefix>: %w", err)\<close>, which wraps \<open>err\<close> and prefixes its text;
  every other error comes from a collaborator. \<open>errors_New\<close> stands for an error
  that carries just a text, \<open>fmt_Errorf\<close> for a wrapped one (its first argument is
  the format up to the verb \<open>%w\<close>), \<open>SchemaStrictnessError\<close> for the normalizer's
  failure at a node path.
\<close>

datatype go_error =
    errors_New string
  | fmt_Errorf string go_error
  | SchemaStrictnessError "string list"

fun path_text :: "string list \<Rightarrow> string" where
  "path_text [] = ''''"
| "path_text (p # ps) = ''/'' @ p @ path_text ps"

fun Error :: "go_error \<Rightarrow> string" where
  "Error (errors_New s) = s"
| "Error (fmt_Errorf prefix err) = prefix @ Error err"
| "Error (SchemaStrictnessError path) = ''schema has no strict form at #'' @ path_text path"

text \<open>
  A value of Go's \<open>any\<close> as the file produces it: \<open>nil\<close>, a string (the message
  of the default error function) or the boxed result of a handler of result type \<open>'r\<close>.
\<close>

datatype 'r go_any = AnyNil | AnyString string | AnyValue 'r

text \<open>\<open>param.Opt[T]\<close>: an optional field, omitted or set by \<open>param.NewOpt\<close>.\<close>

datatype 'v param_Opt = Opt_Omitted | Opt_Set 'v

definition param_NewOpt :: "'v \<Rightarrow> 'v param_Opt" where
  "param_NewOpt v = Opt_Set v"

text \<open>
  A function that may panic returns an \<open>outcome\<close>: the panic value, or what the
  function returned.
\<close>

datatype panic_value = PanicError go_error | RuntimeError string

datatype 'x outcome = Panic panic_value | Return 'x

text \<open>\<open>strings.HasPrefix\<close> and \<open>strings.Contains\<close>, to speak about message texts.\<close>

fun strings_HasPrefix :: "string \<Rightarrow> string \<Rightarrow> bool" where
  "strings_HasPrefix s [] = True"
| "strings_HasPrefix [] (p # ps) = False"
| "strings_HasPrefix (c # s) (p # ps) = (c = p \<and> strings_HasPrefix s ps)"

fun strings_Contains :: "string \<Rightarrow> string \<Rightarrow> bool" where
  "strings_Contains [] substr = (substr = [])"
| "strings_Contains (c # s) substr =
     (strings_HasPrefix (c # s) substr \<or> strings_Contains s substr)"

section \<open>The default error function\<close>

text \<open>
  \<open>ToolErrorFunction\<close>: \<open>func(ctx context.Context, err error) (any, error)\<close>.
  The result pair is (value, error), \<open>None\<close> for a nil error.
\<close>

type_synonym ('ctx, 'r) ToolErrorFunction = "'ctx \<Rightarrow> go_error \<Rightarrow> 'r go_any \<times> go_error option"

definition masking_message :: string where
  "masking_message = ''An error occurred while running the tool. Please try again. Error: ''"

text \<open>
  \<open>fmt.Sprintf("An error occurred while running the tool. Please try again. Error: %s", err)\<close>:
  the verb \<open>%s\<close> prints \<open>err.Error()\<close>.
\<close>

definition DefaultToolErrorFunction :: "('ctx, 'r) ToolErrorFunction" where
  "DefaultToolErrorFunction ctx err = (AnyString (masking_message @ Error err), None)"

section \<open>Enablement\<close>

text \<open>
  \<open>FunctionToolEnabler\<close> is an interface with one method \<open>IsEnabled(ctx, agent)\<close>;
  the file gives it two implementations. The agent is a pointer, \<open>None\<close> when nil.
\<close>

record FunctionToolEnabledFlag =
  isEnabled :: bool

definition FunctionToolEnabledFlag_IsEnabled ::
  "FunctionToolEnabledFlag \<Rightarrow> 'ctx \<Rightarrow> 'agent option \<Rightarrow> bool \<times> go_error option" where
  "FunctionToolEnabledFlag_IsEnabled f ctx agent = (isEnabled f, None)"

definition NewFunctionToolEnabledFlag :: "bool \<Rightarrow> FunctionToolEnabledFlag" where
  "NewFunctionToolEnabledFlag b = \<lparr>isEnabled = b\<rparr>"

type_synonym ('ctx, 'agent) FunctionToolEnablerFunc =
  "'ctx \<Rightarrow> 'agent option \<Rightarrow> bool \<times> go_error option"

definition FunctionToolEnablerFunc_IsEnabled ::
  "('ctx, 'agent) FunctionToolEnablerFunc \<Rightarrow> 'ctx \<Rightarrow> 'agent option \<Rightarrow> bool \<times> go_error option" where
  "FunctionToolEnablerFunc_IsEnabled f ctx agent = f ctx agent"

datatype ('ctx, 'agent) FunctionToolEnabler =
    EnabledFlag FunctionToolEnabledFlag
  | EnablerFunc "('ctx, 'agent) FunctionToolEnablerFunc"

text \<open>The interface call: dispatch on the implementation held by the interface value.\<close>

fun Enabler_IsEnabled ::
  "('ctx, 'agent) FunctionToolEnabler \<Rightarrow> 'ctx \<Rightarrow> 'agent option \<Rightarrow> bool \<times> go_error option" where
  "Enabler_IsEnabled (EnabledFlag f) ctx agent = FunctionToolEnabledFlag_IsEnabled f ctx agent"
| "Enabler_IsEnabled (EnablerFunc f) ctx agent = FunctionToolEnablerFunc_IsEnabled f ctx agent"

definition FunctionToolEnabled :: "('ctx, 'agent) FunctionToolEnabler" where
  "FunctionToolEnabled = EnabledFlag (NewFunctionToolEnabledFlag True)"

definition FunctionToolDisabled :: "('ctx, 'agent) FunctionToolEnabler" where
  "FunctionToolDisabled = EnabledFlag (NewFunctionToolEnabledFlag False)"

section \<open>Schemas and their wire form\<close>

text \<open>A decoded JSON value (\<open>any\<close> as \<open>encoding/json\<close> fills it); a \<open>map[string]any\<close>
  is an association list with distinct keys, the nil map the empty list.\<close>

datatype json =
    JNull
  | JBool bool
  | JNumber int
  | JString string
  | JArray "json list"
  | JObject "(string \<times> json) list"

text \<open>
  \<open>jsonschema.Schema\<close>, with the fields the file sets (\<open>Version\<close>, \<open>Type\<close>,
  \<open>Properties\<close>, \<open>AdditionalProperties\<close>) and those the schema documents of the
  specification speak of (documentation text, \<open>required\<close>, array items, enumeration
  literals, union branches). A pointer field is an \<open>option\<close>. \<open>BoolSchema\<close> is a
  schema that is a bare boolean; \<open>jsonschema.FalseSchema\<close> is the false one.
\<close>

datatype Schema =
    BoolSchema bool
  | Schema
      (Version : string)
      (Type : string)
      (Description : string)
      (Properties : "(string \<times> Schema) list option")
      (AdditionalProperties : "Schema option")
      (Required : "string list")
      (Items : "Schema option")
      (Enum : "json list")
      (AnyOf : "Schema list")

definition jsonschema_FalseSchema :: Schema where
  "jsonschema_FalseSchema = BoolSchema False"

definition jsonschema_Version :: string where
  "jsonschema_Version = ''https://json-schema.org/draft/2020-12/schema''"

text \<open>\<open>jsonschema.NewProperties()\<close>: a fresh, empty ordered map of properties.\<close>

definition jsonschema_NewProperties :: "(string \<times> Schema) list" where
  "jsonschema_NewProperties = []"

text \<open>
  Modelled from the spec: \<open>util.JSONMap\<close> (package \<open>util\<close> of this repository) is not
  among the sources. It turns the schema into the \<open>map[string]any\<close> of its exported JSON
  Schema document (section 6: keywords \<open>properties\<close>, \<open>required\<close>,
  \<open>additionalProperties\<close>): a field with its zero value (empty text, nil pointer, empty
  list) has no keyword, a non-nil pointer to an empty property map is the keyword
  \<open>properties\<close> with an empty object. A schema that is a bare boolean has no map form,
  which is the one failure.
\<close>

primrec Schema_json :: "Schema \<Rightarrow> json" where
  "Schema_json (BoolSchema b) = JBool b"
| "Schema_json (Schema version type description properties additional required items enum anyOf) =
     JObject
      ((if version = [] then [] else [(''$schema'', JString version)]) @
       (if type = [] then [] else [(''type'', JString type)]) @
       (if description = [] then [] else [(''description'', JString description)]) @
       (case map_option (map (map_prod id Schema_json)) properties of
          None \<Rightarrow> [] | Some ps \<Rightarrow> [(''properties'', JObject ps)]) @
       (case map_option Schema_json additional of
          None \<Rightarrow> [] | Some a \<Rightarrow> [(''additionalProperties'', a)]) @
       (if required = [] then [] else [(''required'', JArray (map JString required))]) @
       (case map_option Schema_json items of
          None \<Rightarrow> [] | Some i \<Rightarrow> [(''items'', i)]) @
       (if enum = [] then [] else [(''enum'', JArray enum)]) @
       (if anyOf = [] then [] else [(''anyOf'', JArray (map Schema_json anyOf))]))"

definition util_JSONMap :: "Schema \<Rightarrow> (string \<times> json) list \<times> go_error option" where
  "util_JSONMap schema =
     (case Schema_json schema of
        JObject m \<Rightarrow> (m, None)
      | _ \<Rightarrow> ([], Some (errors_New ''json: cannot unmarshal bool into Go value of type map[string]interface {}'')))"

section \<open>Strictness normalization\<close>

text \<open>
  Modelled from the spec: \<open>EnsureStrictJSONSchema\<close> (package \<open>agents\<close>, another file of
  this repository) is not among the sources. The definitions follow section 4.2 on the
  map form of a schema. An object node is a node whose \<open>type\<close> is \<open>object\<close>. Step 5:
  an object node that declares no properties and opens its keys (\<open>additionalProperties\<close>
  present and not \<open>false\<close>) is a free-form map and fails with the node path. Steps 1 and 2:
  every other object node gets the names of all its properties as \<open>required\<close> and
  \<open>additionalProperties\<close> false, and keeps an (empty, if it had none) \<open>properties\<close>
  object. Step 3: the sub-schemas under \<open>properties\<close>, \<open>items\<close> and \<open>anyOf\<close> are
  normalized the same way. Step 4: any other node and keyword is left as it is.
\<close>

definition is_object_node :: "(string \<times> json) list \<Rightarrow> bool" where
  "is_object_node m = (map_of m ''type'' = Some (JString ''object''))"

definition is_free_form :: "(string \<times> json) list \<Rightarrow> bool" where
  "is_free_form m =
     (is_object_node m \<and> map_of m ''properties'' = None \<and>
      (case map_of m ''additionalProperties'' of
         None \<Rightarrow> False
       | Some a \<Rightarrow> a \<noteq> JBool False))"

definition declared_properties :: "(string \<times> json) list \<Rightarrow> (string \<times> json) list" where
  "declared_properties m =
     (case map_of m ''properties'' of Some (JObject ps) \<Rightarrow> ps | _ \<Rightarrow> [])"

definition seal_object :: "(string \<times> json) list \<Rightarrow> (string \<times> json) list" where
  "seal_object m =
     AList.update ''additionalProperties'' (JBool False)
       (AList.update ''required'' (JArray (map (\<lambda>p. JString (fst p)) (declared_properties m)))
          (AList.update ''properties'' (JObject (declared_properties m)) m))"

definition close_node :: "(string \<times> json) list \<Rightarrow> (string \<times> json) list \<Rightarrow> (string \<times> json) list" where
  "close_node m m' = (if is_object_node m then seal_object m' else m')"

fun strict_node :: "string list \<Rightarrow> json \<Rightarrow> go_error + json"
  and strict_keywords :: "string list \<Rightarrow> (string \<times> json) list \<Rightarrow> go_error + (string \<times> json) list"
  and strict_properties :: "string list \<Rightarrow> (string \<times> json) list \<Rightarrow> go_error + (string \<times> json) list"
  and strict_branches :: "string list \<Rightarrow> json list \<Rightarrow> go_error + json list"
where
  "strict_node path (JObject m) =
     (if is_free_form m then Inl (SchemaStrictnessError path)
      else case strict_keywords path m of
             Inl e \<Rightarrow> Inl e
           | Inr m' \<Rightarrow> Inr (JObject (close_node m m')))"
| "strict_node path JNull = Inr JNull"
| "strict_node path (JBool b) = Inr (JBool b)"
| "strict_node path (JNumber n) = Inr (JNumber n)"
| "strict_node path (JString s) = Inr (JString s)"
| "strict_node path (JArray xs) = Inr (JArray xs)"
| "strict_keywords path [] = Inr []"
| "strict_keywords path (kv # rest) =
     (case (if fst kv = ''properties'' then
              (case snd kv of
                 JObject ps \<Rightarrow> map_sum id JObject (strict_properties (path @ [''properties'']) ps)
               | v \<Rightarrow> Inr v)
            else if fst kv = ''items'' then strict_node (path @ [''items'']) (snd kv)
            else if fst kv = ''anyOf'' then
              (case snd kv of
                 JArray bs \<Rightarrow> map_sum id JArray (strict_branches (path @ [''anyOf'']) bs)
               | v \<Rightarrow> Inr v)
            else Inr (snd kv)) of
        Inl e \<Rightarrow> Inl e
      | Inr v' \<Rightarrow>
          (case strict_keywords path rest of
             Inl e \<Rightarrow> Inl e
           | Inr rest' \<Rightarrow> Inr ((fst kv, v') # rest')))"
| "strict_properties path [] = Inr []"
| "strict_properties path (kv # rest) =
     (case strict_node (path @ [fst kv]) (snd kv) of
        Inl e \<Rightarrow> Inl e
      | Inr v' \<Rightarrow>
          (case strict_properties path rest of
             Inl e \<Rightarrow> Inl e
           | Inr rest' \<Rightarrow> Inr ((fst kv, v') # rest')))"
| "strict_branches path [] = Inr []"
| "strict_branches path (b # bs) =
     (case strict_node path b of
        Inl e \<Rightarrow> Inl e
      | Inr b' \<Rightarrow>
          (case strict_branches path bs of
             Inl e \<Rightarrow> Inl e
           | Inr bs' \<Rightarrow> Inr (b' # bs')))"

definition EnsureStrictJSONSchema ::
  "(string \<times> json) list \<Rightarrow> (string \<times> json) list \<times> go_error option" where
  "EnsureStrictJSONSchema schema =
     (if is_free_form schema then ([], Some (SchemaStrictnessError []))
      else case strict_keywords [] schema of
             Inl e \<Rightarrow> ([], Some e)
           | Inr m' \<Rightarrow> (close_node schema m', None))"

section \<open>Function tools\<close>

text \<open>
  The handler's argument type \<open>T\<close> is known to \<open>SafeNewFunctionTool\<close> through
  reflection only: its kind, its name (empty for an unnamed type) and, for a struct, its
  number of fields.
\<close>

datatype reflect_Kind =
    Invalid | Bool | Int | Int8 | Int16 | Int32 | Int64
  | Uint | Uint8 | Uint16 | Uint32 | Uint64 | Uintptr
  | Float32 | Float64 | Complex64 | Complex128
  | Array | Chan | Func | Interface | Map | Pointer | Slice | String | Struct
  | UnsafePointer

record reflect_Type =
  Kind :: reflect_Kind
  TypeName :: string
  NumField :: nat

text \<open>
  \<open>var zero T; t := reflect.TypeOf(zero)\<close>: the zero value of an interface type is the
  nil interface, for which \<open>reflect.TypeOf\<close> returns nil; for any other type it returns
  the type.
\<close>

definition reflect_TypeOf_zero :: "reflect_Type \<Rightarrow> reflect_Type option" where
  "reflect_TypeOf_zero T = (if Kind T = Interface then None else Some T)"

record Reflector =
  ExpandedStruct :: bool
  RequiredFromJSONSchemaTags :: bool
  AllowAdditionalProperties :: bool

text \<open>
  \<open>FunctionTool\<close>. A function field is \<open>None\<close> when nil. \<open>OnInvokeTool\<close> runs the
  handler, which may act on the world outside the tool: the state \<open>'w\<close> is passed in and
  returned. \<open>FailureErrorFunction\<close> is a pointer to a function value: \<open>None\<close> is the nil
  pointer, \<open>Some None\<close> a pointer to a nil function.
\<close>

record ('ctx, 'w, 'r, 'agent) FunctionTool =
  Name :: string
  Description :: string
  ParamsJSONSchema :: "(string \<times> json) list"
  OnInvokeTool :: "('ctx \<Rightarrow> string \<Rightarrow> 'w \<Rightarrow> ('r go_any \<times> go_error option) \<times> 'w) option"
  FailureErrorFunction :: "('ctx, 'r) ToolErrorFunction option option"
  StrictJSONSchema :: "bool param_Opt"
  IsEnabled :: "('ctx, 'agent) FunctionToolEnabler option"

text \<open>\<open>FunctionTool{}\<close>: every field has its zero value.\<close>

definition FunctionTool_zero :: "('ctx, 'w, 'r, 'agent) FunctionTool" where
  "FunctionTool_zero =
     \<lparr>Name = [], Description = [], ParamsJSONSchema = [], OnInvokeTool = None,
      FailureErrorFunction = None, StrictJSONSchema = Opt_Omitted, IsEnabled = None\<rparr>"

definition ToolName :: "('ctx, 'w, 'r, 'agent) FunctionTool \<Rightarrow> string" where
  "ToolName t = Name t"

text \<open>
  The closure bound to \<open>OnInvokeTool\<close>. \<open>json_Unmarshal\<close> is
  \<open>json.Unmarshal([]byte(arguments), &args)\<close> on a fresh \<open>var args T\<close>: the decoding
  error, or the decoded arguments. The handler is called in the world \<open>w\<close> and returns
  its result, its error and the world it leaves.
\<close>

definition OnInvokeTool_closure ::
  "(string \<Rightarrow> go_error + 'a) \<Rightarrow> ('ctx \<Rightarrow> 'a \<Rightarrow> 'w \<Rightarrow> ('r \<times> go_error option) \<times> 'w) \<Rightarrow>
   'ctx \<Rightarrow> string \<Rightarrow> 'w \<Rightarrow> ('r go_any \<times> go_error option) \<times> 'w" where
  "OnInvokeTool_closure json_Unmarshal handler ctx arguments w =
     (case json_Unmarshal arguments of
        Inl err \<Rightarrow> ((AnyNil, Some (fmt_Errorf ''failed to parse arguments: '' err)), w)
      | Inr args \<Rightarrow>
          (case handler ctx args w of
             ((r, e), w') \<Rightarrow> ((AnyValue r, e), w')))"

text \<open>
  \<open>SafeNewFunctionTool[T, R](name, description, handler)\<close>. The type parameter \<open>T\<close>
  is passed as what reflection and decoding know of it: the type \<open>T\<close>, the schema
  reflection \<open>Reflect\<close> of the jsonschema library at \<open>T\<close> (it may panic) and the
  decoder \<open>json_Unmarshal\<close> into \<open>T\<close>. Calling \<open>t.Kind()\<close> on the nil
  \<open>reflect.Type\<close> is a nil dereference. The operator \<open>&&\<close> evaluates from the left,
  so \<open>NumField\<close> is asked of a struct only.
\<close>

definition anonymous_empty_struct_schema :: "Reflector \<Rightarrow> Schema" where
  "anonymous_empty_struct_schema reflector =
     Schema jsonschema_Version ''object'' [] (Some jsonschema_NewProperties)
       (if \<not> AllowAdditionalProperties reflector then Some jsonschema_FalseSchema else None)
       [] None [] []"

definition SafeNewFunctionTool ::
  "(Reflector \<Rightarrow> reflect_Type \<Rightarrow> Schema outcome) \<Rightarrow> reflect_Type \<Rightarrow>
   (string \<Rightarrow> go_error + 'a) \<Rightarrow>
   string \<Rightarrow> string \<Rightarrow> ('ctx \<Rightarrow> 'a \<Rightarrow> 'w \<Rightarrow> ('r \<times> go_error option) \<times> 'w) \<Rightarrow>
   (('ctx, 'w, 'r, 'agent) FunctionTool \<times> go_error option) outcome" where
  "SafeNewFunctionTool Reflect T json_Unmarshal name description handler =
     (let reflector = \<lparr>ExpandedStruct = True, RequiredFromJSONSchemaTags = False,
                        AllowAdditionalProperties = False\<rparr>
      in case reflect_TypeOf_zero T of
           None \<Rightarrow> Panic (RuntimeError ''invalid memory address or nil pointer dereference'')
         | Some t \<Rightarrow>
            (case (if Kind t = Struct \<and> TypeName t = [] \<and> NumField t = 0
                   then Return (anonymous_empty_struct_schema reflector)
                   else Reflect reflector T) of
               Panic p \<Rightarrow> Panic p
             | Return schema \<Rightarrow>
                (case util_JSONMap schema of
                   (schemaMap, Some err) \<Rightarrow>
                     Return (FunctionTool_zero,
                       Some (fmt_Errorf ''failed to transform function tool jsonschema.Schema to map: '' err))
                 | (schemaMap, None) \<Rightarrow>
                    (case EnsureStrictJSONSchema schemaMap of
                       (schemaMap', Some err) \<Rightarrow>
                         Return (FunctionTool_zero,
                           Some (fmt_Errorf ''failed to ensure strictness of function tool json schema: '' err))
                     | (schemaMap', None) \<Rightarrow>
                         Return
                          (\<lparr>Name = name,
                            Description = description,
                            ParamsJSONSchema = schemaMap',
                            OnInvokeTool = Some (OnInvokeTool_closure json_Unmarshal handler),
                            FailureErrorFunction = None,
                            StrictJSONSchema = param_NewOpt True,
                            IsEnabled = None\<rparr>, None)))))"

text \<open>\<open>NewFunctionTool\<close>: \<open>panic(err)\<close> when \<open>SafeNewFunctionTool\<close> returns an error.\<close>

definition NewFunctionTool ::
  "(Reflector \<Rightarrow> reflect_Type \<Rightarrow> Schema outcome) \<Rightarrow> reflect_Type \<Rightarrow>
   (string \<Rightarrow> go_error + 'a) \<Rightarrow>
   string \<Rightarrow> string \<Rightarrow> ('ctx \<Rightarrow> 'a \<Rightarrow> 'w \<Rightarrow> ('r \<times> go_error option) \<times> 'w) \<Rightarrow>
   ('ctx, 'w, 'r, 'agent) FunctionTool outcome" where
  "NewFunctionTool Reflect T json_Unmarshal name description handler =
     (case SafeNewFunctionTool Reflect T json_Unmarshal name description handler of
        Panic p \<Rightarrow> Panic p
      | Return (v, Some err) \<Rightarrow> Panic (PanicError err)
      | Return (v, None) \<Rightarrow> Return v)"

section \<open>Calling a tool, and the inputs used as examples\<close>

text \<open>
  The call \<open>tool.OnInvokeTool(ctx, arguments)\<close> made by a user of the tool: calling a
  nil function value panics.
\<close>

definition call_OnInvokeTool ::
  "('ctx, 'w, 'r, 'agent) FunctionTool \<Rightarrow> 'ctx \<Rightarrow> string \<Rightarrow> 'w \<Rightarrow>
   (('r go_any \<times> go_error option) \<times> 'w) outcome" where
  "call_OnInvokeTool tool ctx arguments w =
     (case OnInvokeTool tool of
        None \<Rightarrow> Panic (RuntimeError ''invalid memory address or nil pointer dereference'')
      | Some f \<Rightarrow> Return (f ctx arguments w))"

fun panics :: "'x outcome \<Rightarrow> bool" where
  "panics (Panic p) = True"
| "panics (Return x) = False"

fun returns_error :: "('x \<times> go_error option) outcome \<Rightarrow> bool" where
  "returns_error (Return (x, Some err)) = True"
| "returns_error (Return (x, None)) = False"
| "returns_error (Panic p) = False"



text \<open>
  The schema of an object with no property and no key beyond its properties, as a
  \<open>jsonschema.Schema\<close> and as a property of the exported map; and the object nodes
  that declare no property: no \<open>properties\<close> or an empty one, keys not opened, and no
  other sub-schema.
\<close>

definition empty_object_schema :: "string \<Rightarrow> string \<Rightarrow> Schema" where
  "empty_object_schema version description =
     Schema version ''object'' description (Some []) (Some jsonschema_FalseSchema) [] None [] []"

fun is_empty_record_node :: "Schema \<Rightarrow> bool" where
  "is_empty_record_node (BoolSchema b) = False"
| "is_empty_record_node (Schema version type description properties additional required items enum anyOf) =
     (type = ''object'' \<and>
      (properties = None \<or> properties = Some []) \<and>
      (additional = None \<or> additional = Some jsonschema_FalseSchema) \<and>
      items = None \<and> enum = [] \<and> anyOf = [])"

definition is_strict_empty_object :: "(string \<times> json) list \<Rightarrow> bool" where
  "is_strict_empty_object m =
     (map_of m ''type'' = Some (JString ''object'') \<and>
      map_of m ''properties'' = Some (JObject []) \<and>
      map_of m ''required'' = Some (JArray []) \<and>
      map_of m ''additionalProperties'' = Some (JBool False))"

text \<open>
  Example inputs. Four argument types: the unnamed \<open>struct{}\<close>, a named struct
  \<open>NoArgs\<close> without fields, \<open>bool\<close> and the interface type \<open>any\<close>. Three stand-ins
  for the schema reflection: one that panics on every type, one that knows \<open>bool\<close> and
  structs without fields, and one that gives every type the bare object node with no
  keyword but \<open>type\<close>. A decoder of \<open>bool\<close> for the two JSON texts \<open>true\<close> and
  \<open>false\<close>, and one of \<open>struct{}\<close>. A handler that appends each call it receives to
  the world, which is the list of the calls made so far, and fails when the switch is off.
\<close>

definition struct_type :: reflect_Type where
  "struct_type = \<lparr>Kind = Struct, TypeName = [], NumField = 0\<rparr>"

definition NoArgs_type :: reflect_Type where
  "NoArgs_type = \<lparr>Kind = Struct, TypeName = ''NoArgs'', NumField = 0\<rparr>"

definition bool_type :: reflect_Type where
  "bool_type = \<lparr>Kind = Bool, TypeName = ''bool'', NumField = 0\<rparr>"

definition any_type :: reflect_Type where
  "any_type = \<lparr>Kind = Interface, TypeName = [], NumField = 0\<rparr>"

definition panicking_Reflect :: "Reflector \<Rightarrow> reflect_Type \<Rightarrow> Schema outcome" where
  "panicking_Reflect reflector T = Panic (RuntimeError ''jsonschema: cannot reflect'')"

definition small_Reflect :: "Reflector \<Rightarrow> reflect_Type \<Rightarrow> Schema outcome" where
  "small_Reflect reflector T =
     (if Kind T = Bool then Return (Schema jsonschema_Version ''boolean'' [] None None [] None [] [])
      else if Kind T = Struct \<and> NumField T = 0
        then Return (empty_object_schema jsonschema_Version [])
      else Panic (RuntimeError ''jsonschema: cannot reflect''))"

definition bare_Reflect :: "Reflector \<Rightarrow> reflect_Type \<Rightarrow> Schema outcome" where
  "bare_Reflect reflector T = Return (Schema [] ''object'' [] None None [] None [] [])"

definition bool_Unmarshal :: "string \<Rightarrow> go_error + bool" where
  "bool_Unmarshal s =
     (if s = ''true'' then Inr True
      else if s = ''false'' then Inr False
      else Inl (errors_New ''unexpected end of JSON input''))"

definition unit_Unmarshal :: "string \<Rightarrow> go_error + unit" where
  "unit_Unmarshal s =
     (if s = ''{}'' then Inr () else Inl (errors_New ''unexpected end of JSON input''))"

definition recording_handler ::
  "string \<Rightarrow> bool \<Rightarrow> (string \<times> bool) list \<Rightarrow> (string \<times> go_error option) \<times> (string \<times> bool) list" where
  "recording_handler ctx args w =
     ((if args then ''on'' else [], if args then None else Some (errors_New ''switch is off'')),
      w @ [(ctx, args)])"

definition idle_handler ::
  "string \<Rightarrow> unit \<Rightarrow> nat \<Rightarrow> (string \<times> go_error option) \<times> nat" where
  "idle_handler ctx args w = ((''pong'', None), Suc w)"

text \<open>The tools built from the example inputs.\<close>

definition switch_tool ::
  "((string, (string \<times> bool) list, string, unit) FunctionTool \<times> go_error option) outcome" where
  "switch_tool =
     SafeNewFunctionTool small_Reflect bool_type bool_Unmarshal ''switch'' ''Sets the switch''
       recording_handler"

definition ping_tool ::
  "((string, nat, string, unit) FunctionTool \<times> go_error option) outcome" where
  "ping_tool =
     SafeNewFunctionTool panicking_Reflect struct_type unit_Unmarshal ''ping'' ''Pings'' idle_handler"

definition NoArgs_tool ::
  "((string, nat, string, unit) FunctionTool \<times> go_error option) outcome" where
  "NoArgs_tool =
     SafeNewFunctionTool bare_Reflect NoArgs_type unit_Unmarshal ''ping'' ''Pings'' idle_handler"

definition built_switch_tool ::
  "(string, (string \<times> bool) list, string, unit) FunctionTool" where
  "built_switch_tool =
     \<lparr>Name = ''switch'',
      Description = ''Sets the switch'',
      ParamsJSONSchema = [(''$schema'', JString jsonschema_Version), (''type'', JString ''boolean'')],
      OnInvokeTool = Some (OnInvokeTool_closure bool_Unmarshal recording_handler),
      FailureErrorFunction = None,
      StrictJSONSchema = Opt_Set True,
      IsEnabled = None\<rparr>"

definition new_ping_tool :: "(string, nat, string, unit) FunctionTool outcome" where
  "new_ping_tool =
     NewFunctionTool panicking_Reflect struct_type unit_Unmarshal ''ping'' ''Pings'' idle_handler"

definition any_tool ::
  "((string, (string \<times> bool) list, string, unit) FunctionTool \<times> go_error option) outcome" where
  "any_tool =
     SafeNewFunctionTool small_Reflect any_type bool_Unmarshal ''switch'' ''Sets the switch''
       recording_handler"

definition new_any_tool :: "(string, (string \<times> bool) list, string, unit) FunctionTool outcome" where
  "new_any_tool =
     NewFunctionTool small_Reflect any_type bool_Unmarshal ''switch'' ''Sets the switch''
       recording_handler"

section \<open>Properties\<close>

subsection \<open>Shared facts\<close>

lemma strings_HasPrefix_append: "strings_HasPrefix (t @ q) t"
  by (induction t) auto

lemma strings_Contains_append: "strings_Contains (p @ t @ q) t"
proof (induction p)
  case Nil
  show ?case
    by (cases "t @ q") (use strings_HasPrefix_append [of t q] in auto)
next
  case (Cons c p)
  then show ?case by simp
qed

text \<open>What a successful construction sets in the tool it returns.\<close>

lemma SafeNewFunctionTool_success:
  assumes "SafeNewFunctionTool Reflect T json_Unmarshal name description handler = Return (tool, None)"
  shows "Name tool = name"
    and "Description tool = description"
    and "OnInvokeTool tool = Some (OnInvokeTool_closure json_Unmarshal handler)"
    and "FailureErrorFunction tool = None"
    and "StrictJSONSchema tool = param_NewOpt True"
    and "IsEnabled tool = None"
  using assms
  by (auto simp: SafeNewFunctionTool_def Let_def
      split: option.splits outcome.splits prod.splits if_splits)

lemma call_built_tool:
  assumes "SafeNewFunctionTool Reflect T json_Unmarshal name description handler = Return (tool, None)"
  shows "call_OnInvokeTool tool ctx arguments w =
     Return (OnInvokeTool_closure json_Unmarshal handler ctx arguments w)"
  by (simp add: call_OnInvokeTool_def SafeNewFunctionTool_success(3) [OF assms])

lemma NewFunctionTool_Return:
  "NewFunctionTool Reflect T json_Unmarshal name description handler = Return v \<longleftrightarrow>
   SafeNewFunctionTool Reflect T json_Unmarshal name description handler = Return (v, None)"
  by (auto simp: NewFunctionTool_def split: outcome.splits prod.splits option.splits)

lemma NewFunctionTool_panics:
  "panics (NewFunctionTool Reflect T json_Unmarshal name description handler
            :: ('ctx, 'w, 'r, 'agent) FunctionTool outcome) \<longleftrightarrow>
   returns_error (SafeNewFunctionTool Reflect T json_Unmarshal name description handler
            :: (('ctx, 'w, 'r, 'agent) FunctionTool \<times> go_error option) outcome) \<or>
   panics (SafeNewFunctionTool Reflect T json_Unmarshal name description handler
            :: (('ctx, 'w, 'r, 'agent) FunctionTool \<times> go_error option) outcome)"
  by (cases "SafeNewFunctionTool Reflect T json_Unmarshal name description handler
            :: (('ctx, 'w, 'r, 'agent) FunctionTool \<times> go_error option) outcome"
      rule: returns_error.cases) (simp_all add: NewFunctionTool_def)

lemma switch_tool_is_built: "switch_tool = Return (built_switch_tool, None)"
  by (simp add: switch_tool_def built_switch_tool_def SafeNewFunctionTool_def
      reflect_TypeOf_zero_def bool_type_def small_Reflect_def util_JSONMap_def
      jsonschema_Version_def EnsureStrictJSONSchema_def is_free_form_def is_object_node_def
      close_node_def param_NewOpt_def)

lemma switch_tool_built: "\<exists>tool. switch_tool = Return (tool, None)"
  using switch_tool_is_built by blast


lemma JSONMap_empty_object:
  "util_JSONMap (empty_object_schema v d) =
     ((if v = [] then [] else [(''$schema'', JString v)]) @ [(''type'', JString ''object'')] @
      (if d = [] then [] else [(''description'', JString d)]) @
      [(''properties'', JObject []), (''additionalProperties'', JBool False)], None)"
  by (simp add: util_JSONMap_def empty_object_schema_def jsonschema_FalseSchema_def)

lemma EnsureStrict_draft_map:
  "EnsureStrictJSONSchema
     [(''$schema'', JString v), (''type'', JString ''object''), (''properties'', JObject []),
      (''additionalProperties'', JBool False)] =
   ([(''$schema'', JString v), (''type'', JString ''object''), (''properties'', JObject []),
     (''additionalProperties'', JBool False), (''required'', JArray [])], None)"
  by (simp add: EnsureStrictJSONSchema_def is_free_form_def is_object_node_def close_node_def
      seal_object_def declared_properties_def)

lemma EnsureStrict_empty_record_node:
  assumes "is_empty_record_node s"
  shows "\<exists>m m'. util_JSONMap s = (m, None) \<and> EnsureStrictJSONSchema m = (m', None) \<and>
           is_strict_empty_object m'"
proof (cases s)
  case (BoolSchema b)
  with assms show ?thesis by simp
next
  case (Schema v t d ps ap req items enum anyOf)
  with assms have shape: "t = ''object''" "items = None" "enum = []" "anyOf = []"
    and ps: "ps = None \<or> ps = Some []"
    and ap: "ap = None \<or> ap = Some (BoolSchema False)"
    by (simp_all add: jsonschema_FalseSchema_def)
  from ps ap show ?thesis
    unfolding Schema shape
    by (elim disjE)
      (simp_all add: util_JSONMap_def EnsureStrictJSONSchema_def is_free_form_def
        is_object_node_def close_node_def seal_object_def declared_properties_def
        is_strict_empty_object_def)
qed

lemma anonymous_schema_is_empty_object:
  "anonymous_empty_struct_schema
     \<lparr>ExpandedStruct = True, RequiredFromJSONSchemaTags = False, AllowAdditionalProperties = False\<rparr> =
   empty_object_schema jsonschema_Version []"
  by (simp add: anonymous_empty_struct_schema_def empty_object_schema_def
      jsonschema_NewProperties_def)

subsection \<open>Decoding failure\<close>




subsection \<open>The default error function\<close>

text \<open>
  C2, as the code has it. For every handler error, the default error function returns the
  fixed text \<open>An error occurred while running the tool. Please try again. Error: \<close>
  followed by the text of the error, so the message contains the raw error text, and its
  error return is nil.
\<close>

theorem default_error_function_appends_error:
  "DefaultToolErrorFunction ctx err =
     (AnyString (''An error occurred while running the tool. Please try again. Error: '' @ Error err),
      None) \<and>
   strings_HasPrefix
     (''An error occurred while running the tool. Please try again. Error: '' @ Error err)
     ''An error occurred while running the tool. Please try again. Error: '' \<and>
   strings_Contains
     (''An error occurred while running the tool. Please try again. Error: '' @ Error err)
     (Error err)"
proof -
  have "strings_Contains (masking_message @ Error err @ []) (Error err)"
    by (rule strings_Contains_append)
  moreover have "strings_HasPrefix (masking_message @ Error err) masking_message"
    by (rule strings_HasPrefix_append)
  ultimately show ?thesis
    by (simp add: DefaultToolErrorFunction_def masking_message_def)
qed

text \<open>
  C2 as stated fails: for the handler error \<open>boom\<close> the message of the default error
  function ends in \<open>boom\<close>, so it contains the raw error text.
\<close>

theorem default_error_function_counterexample:
  "(DefaultToolErrorFunction () (errors_New ''boom'') :: unit go_any \<times> go_error option) =
     (AnyString ''An error occurred while running the tool. Please try again. Error: boom'', None) \<and>
   strings_Contains ''An error occurred while running the tool. Please try again. Error: boom''
     (Error (errors_New ''boom''))"
  by (simp add: DefaultToolErrorFunction_def masking_message_def)

subsection \<open>Records without fields\<close>

text \<open>
  C3. For an argument type that is a struct with no fields, \<open>SafeNewFunctionTool\<close>
  succeeds and the schema of the tool is an object node with an empty \<open>properties\<close>
  map, an empty \<open>required\<close> list and \<open>additionalProperties\<close> false.

  For the unnamed struct the file builds the schema itself and never asks the schema
  reflection, which may panic: with the reflector's \<open>AllowAdditionalProperties\<close> false,
  the schema it hands on is the object node with a present, empty \<open>Properties\<close> and
  \<open>AdditionalProperties\<close> the false schema. Its map has the keys \<open>$schema\<close>,
  \<open>type\<close>, \<open>properties\<close> and \<open>additionalProperties\<close>, and the schema of the tool
  is that map with the one key \<open>required\<close> added by the normalization.

  For a named struct the file asks the schema reflection of the jsonschema library. The
  hypothesis on it is that a struct without fields becomes an object node that declares no
  property; whether that node carries \<open>properties\<close>, \<open>additionalProperties\<close> or
  \<open>required\<close> is left open, and the normalization supplies them.
\<close>

theorem empty_record_schema:
  assumes "Kind T = Struct" and "NumField T = 0"
    and "TypeName T = [] \<or>
         (Reflect \<lparr>ExpandedStruct = True, RequiredFromJSONSchemaTags = False,
                   AllowAdditionalProperties = False\<rparr> T = Return node \<and>
          is_empty_record_node node)"
  shows "(\<exists>tool. SafeNewFunctionTool Reflect T json_Unmarshal name description handler =
              Return (tool, None) \<and>
            is_strict_empty_object (ParamsJSONSchema tool) \<and>
            (TypeName T = [] \<longrightarrow>
               ParamsJSONSchema tool =
                 [(''$schema'', JString jsonschema_Version), (''type'', JString ''object''),
                  (''properties'', JObject []), (''additionalProperties'', JBool False),
                  (''required'', JArray [])])) \<and>
         anonymous_empty_struct_schema
           \<lparr>ExpandedStruct = True, RequiredFromJSONSchemaTags = False,
            AllowAdditionalProperties = False\<rparr> =
           Schema jsonschema_Version ''object'' [] (Some []) (Some jsonschema_FalseSchema)
             [] None [] [] \<and>
         util_JSONMap
           (Schema jsonschema_Version ''object'' [] (Some []) (Some jsonschema_FalseSchema)
             [] None [] []) =
           ([(''$schema'', JString jsonschema_Version), (''type'', JString ''object''),
             (''properties'', JObject []), (''additionalProperties'', JBool False)], None)"
proof (intro conjI)
  show draft: "anonymous_empty_struct_schema
      \<lparr>ExpandedStruct = True, RequiredFromJSONSchemaTags = False,
       AllowAdditionalProperties = False\<rparr> =
      Schema jsonschema_Version ''object'' [] (Some []) (Some jsonschema_FalseSchema)
        [] None [] []"
    by (simp add: anonymous_empty_struct_schema_def jsonschema_NewProperties_def)
  show draft_map: "util_JSONMap
      (Schema jsonschema_Version ''object'' [] (Some []) (Some jsonschema_FalseSchema)
        [] None [] []) =
      ([(''$schema'', JString jsonschema_Version), (''type'', JString ''object''),
        (''properties'', JObject []), (''additionalProperties'', JBool False)], None)"
    by (simp add: util_JSONMap_def jsonschema_FalseSchema_def jsonschema_Version_def)
  show "\<exists>tool. SafeNewFunctionTool Reflect T json_Unmarshal name description handler =
              Return (tool, None) \<and>
            is_strict_empty_object (ParamsJSONSchema tool) \<and>
            (TypeName T = [] \<longrightarrow>
               ParamsJSONSchema tool =
                 [(''$schema'', JString jsonschema_Version), (''type'', JString ''object''),
                  (''properties'', JObject []), (''additionalProperties'', JBool False),
                  (''required'', JArray [])])"
  proof (cases "TypeName T = []")
    case True
    with assms(1,2) show ?thesis
      by (simp add: SafeNewFunctionTool_def reflect_TypeOf_zero_def draft draft_map
          EnsureStrict_draft_map is_strict_empty_object_def)
  next
    case False
    with assms(3) have r:
      "Reflect \<lparr>ExpandedStruct = True, RequiredFromJSONSchemaTags = False,
                AllowAdditionalProperties = False\<rparr> T = Return node"
      and node: "is_empty_record_node node"
      by simp_all
    from EnsureStrict_empty_record_node [OF node] obtain m m' where
      "util_JSONMap node = (m, None)" "EnsureStrictJSONSchema m = (m', None)"
      "is_strict_empty_object m'"
      by blast
    with False assms(1) r show ?thesis
      by (simp add: SafeNewFunctionTool_def reflect_TypeOf_zero_def)
  qed
qed

text \<open>
  The unnamed \<open>struct{}\<close> with a schema reflection that panics, and the named struct
  \<open>NoArgs\<close> with one that derives the bare object node.
\<close>

theorem empty_record_schema_witness:
  "(case ping_tool of
      Return (tool, None) \<Rightarrow>
        ParamsJSONSchema tool =
          [(''$schema'', JString jsonschema_Version), (''type'', JString ''object''),
           (''properties'', JObject []), (''additionalProperties'', JBool False),
           (''required'', JArray [])]
    | Return (tool, Some err) \<Rightarrow> False
    | Panic p \<Rightarrow> False) \<and>
   (case NoArgs_tool of
      Return (tool, None) \<Rightarrow> is_strict_empty_object (ParamsJSONSchema tool)
    | Return (tool, Some err) \<Rightarrow> False
    | Panic p \<Rightarrow> False)"
proof -
  have "Kind struct_type = Struct" "NumField struct_type = 0" "TypeName struct_type = []"
    by (simp_all add: struct_type_def)
  from empty_record_schema [of struct_type panicking_Reflect, OF this(1,2) disjI1, OF this(3),
      of unit_Unmarshal "''ping''" "''Pings''" idle_handler]
    \<open>TypeName struct_type = []\<close>
  obtain ping :: "(string, nat, string, unit) FunctionTool" where
    ping: "ping_tool = Return (ping, None)"
      "ParamsJSONSchema ping =
         [(''$schema'', JString jsonschema_Version), (''type'', JString ''object''),
          (''properties'', JObject []), (''additionalProperties'', JBool False),
          (''required'', JArray [])]"
    unfolding ping_tool_def by blast
  have "Kind NoArgs_type = Struct" "NumField NoArgs_type = 0"
    and bare: "bare_Reflect \<lparr>ExpandedStruct = True, RequiredFromJSONSchemaTags = False,
                AllowAdditionalProperties = False\<rparr> NoArgs_type =
              Return (Schema [] ''object'' [] None None [] None [] []) \<and>
            is_empty_record_node (Schema [] ''object'' [] None None [] None [] [])"
    by (simp_all add: NoArgs_type_def bare_Reflect_def)
  from empty_record_schema [of NoArgs_type bare_Reflect, OF this(1,2) disjI2, OF bare,
      of unit_Unmarshal "''ping''" "''Pings''" idle_handler]
  obtain noargs :: "(string, nat, string, unit) FunctionTool" where
    noargs: "NoArgs_tool = Return (noargs, None)" "is_strict_empty_object (ParamsJSONSchema noargs)"
    unfolding NoArgs_tool_def by blast
  show ?thesis
    by (subst ping(1), subst noargs(1)) (simp add: ping(2) noargs(2))
qed

subsection \<open>Successful decoding\<close>

text \<open>
  C4. A tool built by \<open>SafeNewFunctionTool\<close>, invoked on an argument string that decodes
  into the argument type, calls the handler once with the given context and the decoded
  arguments: the call returns the result value and the error of that one handler call,
  the value boxed and otherwise unchanged, and leaves the world that one call leaves.
\<close>

theorem decoded_arguments_reach_handler:
  assumes "SafeNewFunctionTool Reflect T json_Unmarshal name description handler = Return (tool, None)"
    and "json_Unmarshal arguments = Inr args"
    and "handler ctx args w = ((r, e), w')"
  shows "call_OnInvokeTool tool ctx arguments w = Return ((AnyValue r, e), w')"
  using call_built_tool [OF assms(1)] assms(2,3)
  by (simp add: OnInvokeTool_closure_def)

text \<open>
  The switch tool on \<open>false\<close>: the recorded calls are exactly the one call with the
  context and the decoded \<open>False\<close>, and the handler's error comes back as it is.
\<close>

theorem decoded_arguments_reach_handler_witness:
  "(case switch_tool of
      Return (tool, None) \<Rightarrow>
        call_OnInvokeTool tool ''ctx'' ''false'' [] =
          Return ((AnyValue [], Some (errors_New ''switch is off'')), [(''ctx'', False)])
    | Return (tool, Some err) \<Rightarrow> False
    | Panic p \<Rightarrow> False)"
proof -
  obtain tool where built: "switch_tool = Return (tool, None)"
    using switch_tool_built by blast
  have good: "bool_Unmarshal ''false'' = Inr False"
    by (simp add: bool_Unmarshal_def)
  have run: "recording_handler ''ctx'' False [] =
      (([], Some (errors_New ''switch is off'')), [(''ctx'', False)])"
    by (simp add: recording_handler_def)
  show ?thesis
    using decoded_arguments_reach_handler [OF built [unfolded switch_tool_def] good, OF run]
    by (subst built) simp
qed

subsection \<open>The two constructors\<close>

text \<open>
  \<open>NewFunctionTool\<close> returns a tool exactly when \<open>SafeNewFunctionTool\<close> returns
  that tool with a nil error, and it panics exactly when \<open>SafeNewFunctionTool\<close> returns
  a non-nil error or panics itself.
\<close>

lemma NewFunctionTool_follows_Safe:
  "(NewFunctionTool Reflect T json_Unmarshal name description handler = Return v \<longleftrightarrow>
      SafeNewFunctionTool Reflect T json_Unmarshal name description handler = Return (v, None)) \<and>
   (panics (NewFunctionTool Reflect T json_Unmarshal name description handler
              :: ('ctx, 'w, 'r, 'agent) FunctionTool outcome) \<longleftrightarrow>
      returns_error (SafeNewFunctionTool Reflect T json_Unmarshal name description handler
              :: (('ctx, 'w, 'r, 'agent) FunctionTool \<times> go_error option) outcome) \<or>
      panics (SafeNewFunctionTool Reflect T json_Unmarshal name description handler
              :: (('ctx, 'w, 'r, 'agent) FunctionTool \<times> go_error option) outcome))"
  using NewFunctionTool_Return [of Reflect T json_Unmarshal name description handler v]
    NewFunctionTool_panics [of Reflect T json_Unmarshal name description handler]
  by blast

text \<open>
  C6 at the argument type \<open>any\<close>. The zero value of an interface type has no
  reflected type, so \<open>SafeNewFunctionTool\<close> panics on \<open>t.Kind()\<close> where its comment
  promises an error instead of a panic; \<open>NewFunctionTool\<close> panics although
  \<open>SafeNewFunctionTool\<close> returned no error.
\<close>

theorem NewFunctionTool_panics_without_error:
  "panics new_any_tool \<and> \<not> returns_error any_tool \<and>
   any_tool = Panic (RuntimeError ''invalid memory address or nil pointer dereference'')"
  by (simp add: new_any_tool_def any_tool_def NewFunctionTool_def SafeNewFunctionTool_def
      reflect_TypeOf_zero_def any_type_def)

subsection \<open>Defaults of a constructed tool\<close>

text \<open>
  C7. Every tool returned by \<open>SafeNewFunctionTool\<close> with a nil error, and every tool
  returned by \<open>NewFunctionTool\<close>, has \<open>StrictJSONSchema\<close> present and true.
\<close>

theorem constructed_tool_is_strict:
  assumes "SafeNewFunctionTool Reflect T json_Unmarshal name description handler = Return (tool, None) \<or>
           NewFunctionTool Reflect T json_Unmarshal name description handler = Return tool"
  shows "StrictJSONSchema tool = Opt_Set True"
proof -
  from assms have
    "SafeNewFunctionTool Reflect T json_Unmarshal name description handler = Return (tool, None)"
    by (simp add: NewFunctionTool_Return)
  from SafeNewFunctionTool_success(5) [OF this] show ?thesis
    by (simp add: param_NewOpt_def)
qed

theorem constructed_tool_is_strict_witness:
  "(case new_ping_tool of
      Return tool \<Rightarrow> StrictJSONSchema tool = Opt_Set True
    | Panic p \<Rightarrow> False)"
proof -
  have "\<exists>tool. new_ping_tool = Return tool"
    by (simp add: new_ping_tool_def NewFunctionTool_def SafeNewFunctionTool_def reflect_TypeOf_zero_def
        struct_type_def anonymous_schema_is_empty_object JSONMap_empty_object
        EnsureStrictJSONSchema_def is_free_form_def is_object_node_def)
  then obtain tool where built: "new_ping_tool = Return tool"
    by blast
  show ?thesis
    using constructed_tool_is_strict [OF disjI2, OF built [unfolded new_ping_tool_def]]
    by (subst built) simp
qed

text \<open>
  C10. Every tool returned by \<open>SafeNewFunctionTool\<close> with a nil error has a nil
  \<open>FailureErrorFunction\<close> and a nil \<open>IsEnabled\<close>: neither field is set, which is the
  case for which the field comments name the defaults.
\<close>

theorem constructed_tool_leaves_defaults:
  assumes "SafeNewFunctionTool Reflect T json_Unmarshal name description handler = Return (tool, None)"
  shows "FailureErrorFunction tool = None \<and> IsEnabled tool = None"
  using SafeNewFunctionTool_success(4,6) [OF assms] by simp

theorem constructed_tool_leaves_defaults_witness:
  "(case switch_tool of
      Return (tool, None) \<Rightarrow> FailureErrorFunction tool = None \<and> IsEnabled tool = None
    | Return (tool, Some err) \<Rightarrow> False
    | Panic p \<Rightarrow> False)"
proof -
  obtain tool where built: "switch_tool = Return (tool, None)"
    using switch_tool_built by blast
  show ?thesis
    using constructed_tool_leaves_defaults [OF built [unfolded switch_tool_def]]
    by (subst built) simp
qed

subsection \<open>Enablement policies\<close>

text \<open>
  C8. For every boolean \<open>b\<close>, context and agent, the constant policy
  \<open>NewFunctionToolEnabledFlag(b)\<close> answers \<open>(b, nil)\<close>, also when it is called through
  the interface; \<open>FunctionToolEnabled()\<close> answers \<open>(true, nil)\<close> and
  \<open>FunctionToolDisabled()\<close> answers \<open>(false, nil)\<close>.
\<close>

theorem constant_policy_answers_flag:
  "FunctionToolEnabledFlag_IsEnabled (NewFunctionToolEnabledFlag b) ctx agent = (b, None) \<and>
   Enabler_IsEnabled (EnabledFlag (NewFunctionToolEnabledFlag b)) ctx agent = (b, None) \<and>
   Enabler_IsEnabled FunctionToolEnabled ctx agent = (True, None) \<and>
   Enabler_IsEnabled FunctionToolDisabled ctx agent = (False, None)"
  by (simp add: FunctionToolEnabledFlag_IsEnabled_def NewFunctionToolEnabledFlag_def
      FunctionToolEnabled_def FunctionToolDisabled_def)

text \<open>
  C9. For every predicate function \<open>f\<close>, context and agent, the delegating policy
  \<open>FunctionToolEnablerFunc(f)\<close> answers exactly \<open>f(ctx, agent)\<close>, boolean and error,
  also when it is called through the interface.
\<close>

theorem delegating_policy_answers_predicate:
  "FunctionToolEnablerFunc_IsEnabled f ctx agent = f ctx agent \<and>
   Enabler_IsEnabled (EnablerFunc f) ctx agent = f ctx agent"
  by (simp add: FunctionToolEnablerFunc_IsEnabled_def)

end
